theory Spec2Isabelle
  imports Main "HOL-Library.Word"
begin

section \<open>Data model\<close>

text \<open>
  Primary keys are UUID strings; instants are JavaScript \<open>Date\<close> values, that is
  milliseconds since the epoch, as unbounded integers.
\<close>

type_synonym uuid = string
type_synonym instant = int

text \<open>
  \<open>bcryptjs\<close>: the digest string spells out the cost factor and the 16-byte salt in
  clear, followed by the hash of the text under both, so two digests of different salts
  are different strings. A digest is modelled as the free term of cost, salt and text:
  two digests that are equal here are equal strings in the code. The converse is not
  relied on: the library reads only the first 72 bytes of the text, so in the code two
  texts with the same first 72 bytes (two tokens of one user, say) have the same digest
  under one salt. \<open>bcrypt.hash(s, rounds)\<close> with a numeric second
  argument draws a new random salt on every call; the drawn salt is an explicit argument
  here. \<open>bcrypt.compare(s, h)\<close> hashes \<open>s\<close> again with the cost and the salt read
  from \<open>h\<close> and compares the two digests.
\<close>

datatype 'a bcrypt = Bcrypt (cost: nat) (salt: "128 word") (plain: 'a)

definition bcrypt_hash :: "128 word \<Rightarrow> 'a \<Rightarrow> nat \<Rightarrow> 'a bcrypt" where
  "bcrypt_hash fresh_salt s rounds = Bcrypt rounds fresh_salt s"

definition bcrypt_compare :: "'a \<Rightarrow> 'a bcrypt \<Rightarrow> bool" where
  "bcrypt_compare s h = (Bcrypt (cost h) (salt h) s = h)"

text \<open>
  \<open>jsonwebtoken\<close>: a bearer string is either a token signed over a payload with some secret,
  or any other text. \<open>iat\<close> and \<open>exp\<close> are in seconds.
\<close>

record jwt_claims =
  c_userId :: uuid
  c_email :: string
  c_role :: string
  c_iat :: int
  c_exp :: int
  c_iss :: string
  c_aud :: string

datatype raw_token = Jwt jwt_claims string | Opaque string

text \<open>What the code can throw: the two errors of \<open>jwt.verify\<close>, a driver error of
  the relational store with its message, and a \<open>TypeError\<close> with its message.\<close>

datatype exn = JsonWebTokenError | TokenExpiredError | SequelizeError string | TypeError string

record config =
  JWT_SECRET :: string
  JWT_EXPIRES_IN :: "int option"

text \<open>The rows of \<open>users\<close>, \<open>user_sessions\<close>, \<open>roles\<close> and \<open>permissions\<close>
  (columns that no decision below reads are left out), and the two join tables.\<close>

record user =
  u_id :: uuid
  u_email :: string
  u_passwordHash :: "string bcrypt"
  u_role :: string
  u_isActive :: bool
  u_lastLogin :: "instant option"

record session =
  s_id :: uuid
  s_userId :: uuid
  s_tokenHash :: "raw_token bcrypt"
  s_ipAddress :: string
  s_userAgent :: string
  s_expiresAt :: instant
  s_createdAt :: instant

record role =
  r_id :: uuid
  r_name :: string

record permission =
  p_id :: uuid
  p_name :: string
  p_resource :: string
  p_action :: string

text \<open>The relational store. \<open>outage = Some msg\<close> stands for a store whose every query
  throws a driver error with message \<open>msg\<close> (a lost connection); \<open>None\<close> for a store
  that answers.\<close>

record db =
  outage :: "string option"
  users :: "user list"
  sessions :: "session list"
  roles :: "role list"
  permissions :: "permission list"
  user_roles :: "(uuid \<times> uuid) list"
  role_permissions :: "(uuid \<times> uuid) list"

text \<open>What a middleware does with a request: it answers with a status and a message, or
  it calls \<open>next()\<close>, having attached something to the request.\<close>

datatype response = Response (status: nat) (message: string)

datatype 'a outcome = Respond response | Next 'a

text \<open>The request: the \<open>Authorization\<close> header after \<open>replace('Bearer ', '')\<close>
  (\<open>None\<close> when the header is absent), and what earlier middleware attached.\<close>

record request =
  bearer :: "raw_token option"
  req_user :: "user option"
  req_session :: "session option"
  req_ip :: string
  req_userAgent :: string

section \<open>Token codec\<close>

text \<open>\<open>jwt.verify(token, secret)\<close> at the instant \<open>now\<close>: the signature is checked
  first, then \<open>exp\<close> against \<open>Math.floor(now / 1000)\<close>. The call passes no issuer or
  audience option, so neither is checked.\<close>

definition jwt_verify :: "raw_token \<Rightarrow> string \<Rightarrow> instant \<Rightarrow> exn + jwt_claims" where
  "jwt_verify token secret now =
     (case token of
        Opaque s \<Rightarrow> Inl JsonWebTokenError
      | Jwt payload key \<Rightarrow>
          if key \<noteq> secret then Inl JsonWebTokenError
          else if now div 1000 \<ge> c_exp payload then Inl TokenExpiredError
          else Inr payload)"

text \<open>\<open>generateToken(user)\<close> at the instant \<open>now\<close>. \<open>JWT_EXPIRES_IN\<close> is the time
  span in milliseconds that \<open>jsonwebtoken\<close> reads from the environment string (a number
  with a unit such as \<open>24h\<close>, or a bare number, which it reads as milliseconds);
  \<open>None\<close> stands for a variable that is unset or empty, for which the code passes
  \<open>24h\<close>. \<open>exp\<close> is \<open>iat\<close> plus the span in whole seconds.\<close>

definition expiresIn :: "config \<Rightarrow> int" where
  "expiresIn cfg = (case JWT_EXPIRES_IN cfg of None \<Rightarrow> 24 * 3600 * 1000 | Some ms \<Rightarrow> ms)"

definition generateToken :: "config \<Rightarrow> user \<Rightarrow> instant \<Rightarrow> raw_token" where
  "generateToken cfg u now =
     Jwt \<lparr> c_userId = u_id u, c_email = u_email u, c_role = u_role u,
           c_iat = now div 1000, c_exp = now div 1000 + expiresIn cfg div 1000,
           c_iss = ''openblind-api'', c_aud = ''openblind-app'' \<rparr>
         (JWT_SECRET cfg)"

section \<open>Session manager\<close>

text \<open>The query of \<open>authenticate\<close> and \<open>optionalAuth\<close>: the first row of
  \<open>user_sessions\<close> joined with its user such that the stored digest equals the given
  one, the expiry is later than \<open>now\<close>, and the user has the given id and is active.\<close>

definition UserSession_findOne ::
  "db \<Rightarrow> raw_token bcrypt \<Rightarrow> instant \<Rightarrow> uuid \<Rightarrow> exn + (session \<times> user) option" where
  "UserSession_findOne d tokenHash now userId =
     (case outage d of
        Some msg \<Rightarrow> Inl (SequelizeError msg)
      | None \<Rightarrow>
          Inr (find (\<lambda>(s, u). s_tokenHash s = tokenHash \<and> s_expiresAt s > now
                                \<and> u_id u = userId \<and> u_isActive u)
                    [(s, u). s \<leftarrow> sessions d, u \<leftarrow> users d, s_userId s = u_id u]))"

definition User_update ::
  "db \<Rightarrow> (user \<Rightarrow> user) \<Rightarrow> uuid \<Rightarrow> exn + db" where
  "User_update d change userId =
     (case outage d of
        Some msg \<Rightarrow> Inl (SequelizeError msg)
      | None \<Rightarrow>
          Inr (d\<lparr>users := map (\<lambda>u. if u_id u = userId then change u else u) (users d)\<rparr>))"

definition falsy :: "raw_token option \<Rightarrow> bool" where
  "falsy t = (case t of None \<Rightarrow> True | Some (Opaque s) \<Rightarrow> s = [] | Some (Jwt c k) \<Rightarrow> False)"

definition auth_catch :: "exn \<Rightarrow> response" where
  "auth_catch e =
     (if e = JsonWebTokenError then Response 401 ''Invalid token''
      else if e = TokenExpiredError then Response 401 ''Token expired''
      else Response 500 ''Authentication failed'')"

text \<open>\<open>authenticate\<close> at the instant \<open>now\<close>; \<open>fresh_salt\<close> is the salt that
  \<open>bcrypt.hash(token, 10)\<close> draws in this call. It returns the response or the pair
  attached to the request, and the store.\<close>

definition authenticate ::
  "config \<Rightarrow> db \<Rightarrow> request \<Rightarrow> instant \<Rightarrow> 128 word \<Rightarrow> (user \<times> session) outcome \<times> db" where
  "authenticate cfg d req now fresh_salt =
     (case bearer req of
        None \<Rightarrow> (Respond (Response 401 ''Access token is required''), d)
      | Some token \<Rightarrow>
          if falsy (Some token) then (Respond (Response 401 ''Access token is required''), d)
          else
            (case jwt_verify token (JWT_SECRET cfg) now of
               Inl e \<Rightarrow> (Respond (auth_catch e), d)
             | Inr decoded \<Rightarrow>
                 (case UserSession_findOne d (bcrypt_hash fresh_salt token 10) now
                         (c_userId decoded) of
                    Inl e \<Rightarrow> (Respond (auth_catch e), d)
                  | Inr None \<Rightarrow> (Respond (Response 401 ''Invalid or expired token''), d)
                  | Inr (Some (s, u)) \<Rightarrow>
                      (case User_update d (\<lambda>v. v\<lparr>u_lastLogin := Some now\<rparr>)
                              (c_userId decoded) of
                         Inl e \<Rightarrow> (Respond (auth_catch e), d)
                       | Inr d' \<Rightarrow> (Next (u, s), d')))))"

text \<open>\<open>optionalAuth\<close>: the same lookup; every exit is \<open>next()\<close>, and nothing is
  written to the store.\<close>

definition optionalAuth ::
  "config \<Rightarrow> db \<Rightarrow> request \<Rightarrow> instant \<Rightarrow> 128 word \<Rightarrow> (user \<times> session) option outcome" where
  "optionalAuth cfg d req now fresh_salt =
     (case bearer req of
        None \<Rightarrow> Next None
      | Some token \<Rightarrow>
          if falsy (Some token) then Next None
          else
            (case jwt_verify token (JWT_SECRET cfg) now of
               Inl e \<Rightarrow> Next None
             | Inr decoded \<Rightarrow>
                 (case UserSession_findOne d (bcrypt_hash fresh_salt token 10) now
                         (c_userId decoded) of
                    Inl e \<Rightarrow> Next None
                  | Inr None \<Rightarrow> Next None
                  | Inr (Some (s, u)) \<Rightarrow> Next (Some (u, s)))))"

text \<open>\<open>createUserSession\<close> at the instant \<open>now\<close>: \<open>fresh_salt\<close> is the salt drawn
  by \<open>bcrypt.hash(token, 10)\<close>, \<open>new_id\<close> the primary key drawn by \<open>UUIDV4\<close>.
  The expiry is \<open>now\<close> with its hour field advanced by 24, taken as 24 hours of
  milliseconds (a server clock without a daylight-saving change in between).\<close>

definition createUserSession ::
  "db \<Rightarrow> user \<Rightarrow> raw_token \<Rightarrow> request \<Rightarrow> instant \<Rightarrow> 128 word \<Rightarrow> uuid
     \<Rightarrow> exn + (session \<times> db)" where
  "createUserSession d u token req now fresh_salt new_id =
     (let tokenHash = bcrypt_hash fresh_salt token 10;
          expiresAt = now + 24 * 3600 * 1000;
          row = \<lparr> s_id = new_id, s_userId = u_id u, s_tokenHash = tokenHash,
                  s_ipAddress = req_ip req, s_userAgent = req_userAgent req,
                  s_expiresAt = expiresAt, s_createdAt = now \<rparr>
      in case outage d of
           Some msg \<Rightarrow> Inl (SequelizeError msg)
         | None \<Rightarrow> Inr (row, d\<lparr>sessions := sessions d @ [row]\<rparr>))"

text \<open>\<open>UserSession.destroy({where})\<close> deletes the rows that satisfy the condition and
  returns how many they were.\<close>

definition UserSession_destroy :: "db \<Rightarrow> (session \<Rightarrow> bool) \<Rightarrow> exn + (nat \<times> db)" where
  "UserSession_destroy d cond =
     (case outage d of
        Some msg \<Rightarrow> Inl (SequelizeError msg)
      | None \<Rightarrow>
          Inr (length (filter cond (sessions d)),
               d\<lparr>sessions := filter (\<lambda>s. \<not> cond s) (sessions d)\<rparr>))"



text \<open>\<open>cleanExpiredSessions\<close> at the instant \<open>now\<close>; a driver error is logged and
  thrown again.\<close>

definition cleanExpiredSessions :: "db \<Rightarrow> instant \<Rightarrow> exn + (nat \<times> db)" where
  "cleanExpiredSessions d now = UserSession_destroy d (\<lambda>s. s_expiresAt s < now)"

section \<open>Login and deactivation\<close>

text \<open>The error handler behind \<open>asyncHandler\<close>: an error made by \<open>createError\<close> is
  already a response here; anything else thrown is answered with its own message, with the
  status of the two token errors 401 and else 500.\<close>

definition errorHandler :: "exn \<Rightarrow> response" where
  "errorHandler e =
     (case e of
        JsonWebTokenError \<Rightarrow> Response 401 ''Invalid authentication token''
      | TokenExpiredError \<Rightarrow> Response 401 ''Authentication token expired''
      | SequelizeError msg \<Rightarrow> Response 500 (if msg = [] then ''Internal Server Error'' else msg)
      | TypeError msg \<Rightarrow> Response 500 (if msg = [] then ''Internal Server Error'' else msg))"

datatype login_result = LoginFailed response | LoginOk user raw_token instant

text \<open>The \<open>POST /login\<close> handler on a validated body, at the instant \<open>now\<close>.\<close>

definition login ::
  "config \<Rightarrow> db \<Rightarrow> string \<Rightarrow> string \<Rightarrow> request \<Rightarrow> instant \<Rightarrow> 128 word \<Rightarrow> uuid
     \<Rightarrow> login_result \<times> db" where
  "login cfg d email password req now fresh_salt new_id =
     (case outage d of
        Some msg \<Rightarrow> (LoginFailed (errorHandler (SequelizeError msg)), d)
      | None \<Rightarrow>
          (case find (\<lambda>u. u_email u = email \<and> u_isActive u) (users d) of
             None \<Rightarrow> (LoginFailed (Response 401 ''Invalid credentials''), d)
           | Some u \<Rightarrow>
               if \<not> bcrypt_compare password (u_passwordHash u)
               then (LoginFailed (Response 401 ''Invalid credentials''), d)
               else
                 (let token = generateToken cfg u now in
                  case createUserSession d u token req now fresh_salt new_id of
                    Inl e \<Rightarrow> (LoginFailed (errorHandler e), d)
                  | Inr (row, d1) \<Rightarrow>
                      (case User_update d1 (\<lambda>v. v\<lparr>u_lastLogin := Some now\<rparr>) (u_id u) of
                         Inl e \<Rightarrow> (LoginFailed (errorHandler e), d1)
                       | Inr d2 \<Rightarrow> (LoginOk u token (s_expiresAt row), d2)))))"

text \<open>\<open>toggleUserStatus\<close> for the path parameter \<open>target\<close>: it answers with the new
  value of the active flag.\<close>

definition toggleUserStatus :: "db \<Rightarrow> request \<Rightarrow> uuid \<Rightarrow> (response + bool) \<times> db" where
  "toggleUserStatus d req target =
     (case outage d of
        Some msg \<Rightarrow> (Inl (errorHandler (SequelizeError msg)), d)
      | None \<Rightarrow>
          (case find (\<lambda>u. u_id u = target) (users d) of
             None \<Rightarrow> (Inl (Response 404 ''User not found''), d)
           | Some u \<Rightarrow>
               (case req_user req of
                  None \<Rightarrow>
                    (Inl (errorHandler
                       (TypeError ''Cannot read properties of undefined (reading 'id')'')), d)
                | Some actor \<Rightarrow>
                    if u_id actor = u_id u
                    then (Inl (Response 400 ''You cannot deactivate your own account''), d)
                    else
                      (let newStatus = (\<not> u_isActive u) in
                       case User_update d (\<lambda>v. v\<lparr>u_isActive := newStatus\<rparr>) (u_id u) of
                         Inl e \<Rightarrow> (Inl (errorHandler e), d)
                       | Inr d' \<Rightarrow> (Inr newStatus, d')))))"

section \<open>Permission resolver\<close>

record cache_entry =
  ce_permissions :: "permission list"
  ce_timestamp :: instant

text \<open>The cache is a \<open>Map\<close> keyed by \<open>user_permissions_\<close> followed by the user id,
  that is, by the user id.\<close>

type_synonym permissionsCache = "uuid \<rightharpoonup> cache_entry"

definition CACHE_TTL :: int where
  "CACHE_TTL = 5 * 60 * 1000"

text \<open>\<open>User.findByPk(userId, include roles, include permissions)\<close>: the user with its
  roles through \<open>user_roles\<close>, each with its permissions through
  \<open>role_permissions\<close>.\<close>

definition User_findByPk ::
  "db \<Rightarrow> uuid \<Rightarrow> exn + (user \<times> (role \<times> permission list) list) option" where
  "User_findByPk d userId =
     (case outage d of
        Some msg \<Rightarrow> Inl (SequelizeError msg)
      | None \<Rightarrow>
          Inr (case find (\<lambda>u. u_id u = userId) (users d) of
                 None \<Rightarrow> None
               | Some u \<Rightarrow>
                   Some (u, map (\<lambda>r. (r, filter (\<lambda>p. (r_id r, p_id p) \<in> set (role_permissions d))
                                             (permissions d)))
                                (filter (\<lambda>r. (u_id u, r_id r) \<in> set (user_roles d))
                                        (roles d)))))"

text \<open>The two nested \<open>forEach\<close> loops over the accumulator \<open>permissions\<close>.\<close>

fun collect_role :: "permission list \<Rightarrow> permission list \<Rightarrow> permission list" where
  "collect_role acc [] = acc"
| "collect_role acc (p # ps) =
     collect_role (if find (\<lambda>q. p_id q = p_id p) acc = None
                   then acc @ [\<lparr> p_id = p_id p, p_name = p_name p,
                                  p_resource = p_resource p, p_action = p_action p \<rparr>]
                   else acc) ps"

fun collect_roles :: "permission list \<Rightarrow> (role \<times> permission list) list \<Rightarrow> permission list" where
  "collect_roles acc [] = acc"
| "collect_roles acc (rp # rps) = collect_roles (collect_role acc (snd rp)) rps"

text \<open>\<open>getUserPermissions(userId)\<close> at the instant \<open>now\<close>: it returns the list, the
  cache, and the number of queries it sent to the store.\<close>

definition getUserPermissions ::
  "permissionsCache \<Rightarrow> db \<Rightarrow> instant \<Rightarrow> uuid \<Rightarrow> permission list \<times> permissionsCache \<times> nat" where
  "getUserPermissions cache d now userId =
     (case (case cache userId of
              Some cached \<Rightarrow> if now - ce_timestamp cached < CACHE_TTL then Some cached else None
            | None \<Rightarrow> None) of
        Some cached \<Rightarrow> (ce_permissions cached, cache, 0)
      | None \<Rightarrow>
          (case User_findByPk d userId of
             Inl e \<Rightarrow> ([], cache, 1)
           | Inr None \<Rightarrow> ([], cache, 1)
           | Inr (Some (u, rs)) \<Rightarrow>
               (let ps = collect_roles [] rs
                in (ps, cache(userId \<mapsto> \<lparr> ce_permissions = ps, ce_timestamp = now \<rparr>), 1))))"

section \<open>Authorization guard\<close>

text \<open>An entry of \<open>requiredPermissions\<close>: a string (a permission name), an object with
  a resource and an action, \<open>null\<close>, or any other value (a number, a boolean,
  \<open>undefined\<close>).\<close>

datatype required = ByName string | ByResourceAction string string | NullEntry | OtherEntry

definition matches :: "required \<Rightarrow> permission \<Rightarrow> exn + bool" where
  "matches req_entry p =
     (case req_entry of
        ByName n \<Rightarrow> Inr (p_name p = n)
      | ByResourceAction r a \<Rightarrow> Inr (p_resource p = r \<and> p_action p = a)
      | NullEntry \<Rightarrow> Inl (TypeError ''Cannot read properties of null (reading 'resource')'')
      | OtherEntry \<Rightarrow> Inr False)"

text \<open>\<open>Array.prototype.some\<close> and \<open>every\<close> with a callback that may throw: both
  stop at the first deciding element, and a throw leaves the loop.\<close>

fun js_some :: "('a \<Rightarrow> exn + bool) \<Rightarrow> 'a list \<Rightarrow> exn + bool" where
  "js_some f [] = Inr False"
| "js_some f (x # xs) =
     (case f x of Inl e \<Rightarrow> Inl e | Inr b \<Rightarrow> if b then Inr True else js_some f xs)"

fun js_every :: "('a \<Rightarrow> exn + bool) \<Rightarrow> 'a list \<Rightarrow> exn + bool" where
  "js_every f [] = Inr True"
| "js_every f (x # xs) =
     (case f x of Inl e \<Rightarrow> Inl e | Inr b \<Rightarrow> if b then js_every f xs else Inr False)"

text \<open>\<open>authorize(requiredPermissions)\<close> at the instant \<open>now\<close>.\<close>

definition authorize ::
  "required list \<Rightarrow> permissionsCache \<Rightarrow> db \<Rightarrow> request \<Rightarrow> instant
     \<Rightarrow> unit outcome \<times> permissionsCache" where
  "authorize requiredPermissions cache d req now =
     (case req_user req of
        None \<Rightarrow> (Respond (Response 401 ''Authentication required''), cache)
      | Some u \<Rightarrow>
          if u_role u = ''admin'' then (Next (), cache)
          else
            (case getUserPermissions cache d now (u_id u) of
               (userPermissions, cache', n) \<Rightarrow>
                 (case js_every (\<lambda>req_entry. js_some (matches req_entry) userPermissions)
                         requiredPermissions of
                    Inl e \<Rightarrow> (Respond (Response 500 ''Authorization failed''), cache')
                  | Inr hasPermission \<Rightarrow>
                      if \<not> hasPermission
                      then (Respond (Response 403 ''Insufficient permissions''), cache')
                      else (Next (), cache'))))"

section \<open>Role gate and ownership gate\<close>

text \<open>\<open>requireRole(roles)\<close>: a single role is wrapped into a one-element array.\<close>

datatype roles_arg = RoleArray "string list" | SingleRole string

definition allowedRoles :: "roles_arg \<Rightarrow> string list" where
  "allowedRoles arg = (case arg of RoleArray rs \<Rightarrow> rs | SingleRole r \<Rightarrow> [r])"

definition requireRole :: "roles_arg \<Rightarrow> request \<Rightarrow> unit outcome" where
  "requireRole arg req =
     (case req_user req of
        None \<Rightarrow> Respond (Response 401 ''Authentication required'')
      | Some u \<Rightarrow>
          if u_role u \<notin> set (allowedRoles arg)
          then Respond (Response 403 ''Insufficient role permissions'')
          else Next ())"

text \<open>\<open>requireOwnership(getResourceUserId)\<close>: the callback is awaited only for a
  non-admin identity; it yields the owner id or throws.\<close>

definition requireOwnership :: "(request \<Rightarrow> exn + uuid) \<Rightarrow> request \<Rightarrow> unit outcome" where
  "requireOwnership getResourceUserId req =
     (case req_user req of
        None \<Rightarrow> Respond (Response 401 ''Authentication required'')
      | Some u \<Rightarrow>
          if u_role u = ''admin'' then Next ()
          else (case getResourceUserId req of
                  Inl e \<Rightarrow> Respond (Response 500 ''Access verification failed'')
                | Inr resourceUserId \<Rightarrow>
                    if resourceUserId \<noteq> u_id u
                    then Respond (Response 403
                           ''Access denied: You can only access your own resources'')
                    else Next ()))"

section \<open>An example store\<close>

text \<open>An administrator and a moderator whose role grants \<open>routes.read\<close> and
  \<open>routes.update\<close>, used to run the operations on concrete inputs.\<close>

definition cfg0 :: config where
  "cfg0 = \<lparr> JWT_SECRET = ''s3cret'', JWT_EXPIRES_IN = None \<rparr>"

definition root :: user where
  "root = \<lparr> u_id = ''u0'', u_email = ''root@example.org'',
            u_passwordHash = Bcrypt 12 5 ''toor'', u_role = ''admin'',
            u_isActive = True, u_lastLogin = None \<rparr>"

definition alice :: user where
  "alice = \<lparr> u_id = ''u1'', u_email = ''alice@example.org'',
             u_passwordHash = Bcrypt 12 7 ''pw'', u_role = ''moderator'',
             u_isActive = True, u_lastLogin = None \<rparr>"

definition routes_read :: permission where
  "routes_read = \<lparr> p_id = ''p1'', p_name = ''routes.read'',
                   p_resource = ''routes'', p_action = ''read'' \<rparr>"

definition routes_update :: permission where
  "routes_update = \<lparr> p_id = ''p2'', p_name = ''routes.update'',
                     p_resource = ''routes'', p_action = ''update'' \<rparr>"

definition routes_delete :: permission where
  "routes_delete = \<lparr> p_id = ''p3'', p_name = ''routes.delete'',
                     p_resource = ''routes'', p_action = ''delete'' \<rparr>"

definition db0 :: db where
  "db0 = \<lparr> outage = None, users = [root, alice], sessions = [],
           roles = [\<lparr> r_id = ''r1'', r_name = ''moderator'' \<rparr>],
           permissions = [routes_read, routes_update, routes_delete],
           user_roles = [(''u1'', ''r1'')],
           role_permissions = [(''r1'', ''p1''), (''r1'', ''p2'')] \<rparr>"

definition req0 :: request where
  "req0 = \<lparr> bearer = None, req_user = None, req_session = None,
            req_ip = ''10.0.0.1'', req_userAgent = ''curl'' \<rparr>"

text \<open>The store after the moderator has logged in at instant 1500 (the digest salted
  with 1, the session row keyed \<open>s1\<close>), and the token that login returned.\<close>

definition tok0 :: raw_token where
  "tok0 = generateToken cfg0 alice 1500"

definition db1 :: db where
  "db1 = snd (login cfg0 db0 ''alice@example.org'' ''pw'' req0 1500 1 ''s1'')"


definition db_deactivated :: db where
  "db_deactivated =
     db1\<lparr>users := [root, alice\<lparr>u_isActive := False, u_lastLogin := Some 1500\<rparr>]\<rparr>"

text \<open>The store after the moderator has logged in a second time within the same second
  (instant 1700, the digest salted with 3, the session row keyed \<open>s2\<close>), and that store
  after the session \<open>s1\<close> is destroyed.\<close>

definition db2 :: db where
  "db2 = snd (login cfg0 db1 ''alice@example.org'' ''pw'' req0 1700 3 ''s2'')"


text \<open>Three sessions of the moderator that expire just before, at, and just after the
  instant 1000.\<close>

definition sess :: "uuid \<Rightarrow> instant \<Rightarrow> session" where
  "sess k e = \<lparr> s_id = k, s_userId = ''u1'', s_tokenHash = Bcrypt 10 1 (Opaque k),
               s_ipAddress = ''10.0.0.1'', s_userAgent = ''curl'',
               s_expiresAt = e, s_createdAt = 0 \<rparr>"

definition db_sweep :: db where
  "db_sweep = db0\<lparr>sessions := [sess ''a'' 999, sess ''b'' 1000, sess ''c'' 1001]\<rparr>"

section \<open>The stores that follow a logout\<close>


section \<open>The specification's reading of the permission gate\<close>

text \<open>An entry of the requirement list is present in a permission set when the set holds
  a permission of that name, or of that resource and action; an entry that names no
  permission is present in none.\<close>

fun present_in :: "required \<Rightarrow> permission list \<Rightarrow> bool" where
  "present_in (ByName n) ps = (n \<in> p_name ` set ps)"
| "present_in (ByResourceAction r a) ps = ((r, a) \<in> (\<lambda>p. (p_resource p, p_action p)) ` set ps)"
| "present_in NullEntry ps = False"
| "present_in OtherEntry ps = False"

section \<open>The specification's reading of the permission resolver\<close>

text \<open>The permissions reachable from an identity: those granted to some role that is
  assigned to it.\<close>

definition reachable :: "db \<Rightarrow> uuid \<Rightarrow> permission set" where
  "reachable d userId =
     {p \<in> set (permissions d).
        \<exists>r \<in> set (roles d). (userId, r_id r) \<in> set (user_roles d)
                          \<and> (r_id r, p_id p) \<in> set (role_permissions d)}"

section \<open>Lists and lookups\<close>

lemma find_SomeD: "find P xs = Some x \<Longrightarrow> P x \<and> x \<in> set xs"
  by (induction xs) (auto split: if_splits)

section \<open>The role gate and the ownership gate\<close>

text \<open>
  C8. For every authenticated identity and every list of allowed roles, the role gate
  calls \<open>next()\<close> exactly when the identity's role is a member of the list and answers
  403 otherwise; an administrator whose role is not in the list is answered 403 like
  anybody else. A single role given in place of a list allows that role only.
\<close>

theorem requireRole_iff_member:
  "(requireRole (RoleArray rs) ((req::request)\<lparr>req_user := Some u\<rparr>) = Next ()
      \<longleftrightarrow> u_role u \<in> set rs)
   \<and> (u_role u \<notin> set rs \<longrightarrow>
        requireRole (RoleArray rs) (req\<lparr>req_user := Some u\<rparr>)
          = Respond (Response 403 ''Insufficient role permissions''))
   \<and> (u_role u = ''admin'' \<and> ''admin'' \<notin> set rs \<longrightarrow>
        requireRole (RoleArray rs) (req\<lparr>req_user := Some u\<rparr>)
          = Respond (Response 403 ''Insufficient role permissions''))
   \<and> (requireRole (SingleRole r) (req\<lparr>req_user := Some u\<rparr>) = Next ()
        \<longleftrightarrow> u_role u = r)"
  by (simp add: requireRole_def allowedRoles_def)

theorem requireRole_iff_member_witness:
  "requireRole (RoleArray [''moderator'', ''user'']) (req0\<lparr>req_user := Some root\<rparr>)
     = Respond (Response 403 ''Insufficient role permissions'')
   \<and> requireRole (RoleArray [''moderator'', ''user'']) (req0\<lparr>req_user := Some alice\<rparr>)
     = Next ()"
  using requireRole_iff_member
          [where rs = "[''moderator'', ''user'']" and req = req0 and u = root]
        requireRole_iff_member
          [where rs = "[''moderator'', ''user'']" and req = req0 and u = alice]
  by (simp add: root_def alice_def)

text \<open>
  C9. For every authenticated identity and every owner id that the callback yields, the
  ownership gate calls \<open>next()\<close> exactly when the identity is an administrator or the
  owner id is the identity's id; any other identity is answered 403 with the message of
  the ownership check.
\<close>

theorem requireOwnership_iff_admin_or_owner:
  assumes "getResourceUserId ((req::request)\<lparr>req_user := Some u\<rparr>) = Inr owner"
  shows "(requireOwnership getResourceUserId (req\<lparr>req_user := Some u\<rparr>) = Next ()
           \<longleftrightarrow> u_role u = ''admin'' \<or> owner = u_id u)
         \<and> (\<not> (u_role u = ''admin'' \<or> owner = u_id u) \<longrightarrow>
              requireOwnership getResourceUserId (req\<lparr>req_user := Some u\<rparr>)
                = Respond (Response 403
                    ''Access denied: You can only access your own resources''))"
  using assms by (simp add: requireOwnership_def)

theorem requireOwnership_iff_admin_or_owner_witness:
  "requireOwnership (\<lambda>r. Inr ''u1'') (req0\<lparr>req_user := Some alice\<rparr>) = Next ()
   \<and> requireOwnership (\<lambda>r. Inr ''u0'') (req0\<lparr>req_user := Some alice\<rparr>)
       = Respond (Response 403 ''Access denied: You can only access your own resources'')
   \<and> requireOwnership (\<lambda>r. Inr ''u1'') (req0\<lparr>req_user := Some root\<rparr>) = Next ()"
  using requireOwnership_iff_admin_or_owner
          [where getResourceUserId = "\<lambda>r. Inr ''u1''" and req = req0 and u = alice
             and owner = "''u1''"]
        requireOwnership_iff_admin_or_owner
          [where getResourceUserId = "\<lambda>r. Inr ''u0''" and req = req0 and u = alice
             and owner = "''u0''"]
        requireOwnership_iff_admin_or_owner
          [where getResourceUserId = "\<lambda>r. Inr ''u1''" and req = req0 and u = root
             and owner = "''u1''"]
  by (simp add: root_def alice_def)

section \<open>The permission resolver\<close>

lemma copy_permission:
  "\<lparr> p_id = p_id p, p_name = p_name p, p_resource = p_resource p, p_action = p_action p \<rparr>
     = (p::permission)"
  by simp

lemma collect_role_Cons:
  "collect_role acc (p # ps)
     = collect_role (if p_id p \<in> p_id ` set acc then acc else acc @ [p]) ps"
proof -
  have "(find (\<lambda>q. p_id q = p_id p) acc = None) \<longleftrightarrow> p_id p \<notin> p_id ` set acc"
    by (auto simp: find_None_iff image_iff)
  then show ?thesis by (simp add: copy_permission)
qed

lemma collect_role_ids:
  "p_id ` set (collect_role acc ps) = p_id ` set acc \<union> p_id ` set ps"
proof (induction ps arbitrary: acc)
  case Nil
  then show ?case by simp
next
  case (Cons p ps)
  show ?case unfolding collect_role_Cons Cons by auto
qed

lemma collect_role_distinct:
  "distinct (map p_id acc) \<Longrightarrow> distinct (map p_id (collect_role acc ps))"
proof (induction ps arbitrary: acc)
  case Nil
  then show ?case by simp
next
  case (Cons p ps)
  have "distinct (map p_id (if p_id p \<in> p_id ` set acc then acc else acc @ [p]))"
    using Cons.prems by auto
  then show ?case unfolding collect_role_Cons by (rule Cons.IH)
qed

lemma collect_role_subset: "set (collect_role acc ps) \<subseteq> set acc \<union> set ps"
proof (induction ps arbitrary: acc)
  case Nil
  then show ?case by simp
next
  case (Cons p ps)
  show ?case unfolding collect_role_Cons
    using Cons [of "if p_id p \<in> p_id ` set acc then acc else acc @ [p]"]
    by (auto split: if_splits)
qed

lemma collect_roles_ids:
  "p_id ` set (collect_roles acc rs) = p_id ` set acc \<union> p_id ` (\<Union>rp \<in> set rs. set (snd rp))"
  by (induction rs arbitrary: acc) (auto simp: collect_role_ids)

lemma collect_roles_distinct:
  "distinct (map p_id acc) \<Longrightarrow> distinct (map p_id (collect_roles acc rs))"
  by (induction rs arbitrary: acc) (auto simp: collect_role_distinct)

lemma collect_roles_subset:
  "set (collect_roles acc rs) \<subseteq> set acc \<union> (\<Union>rp \<in> set rs. set (snd rp))"
proof (induction rs arbitrary: acc)
  case Nil
  then show ?case by simp
next
  case (Cons rp rs)
  show ?case using Cons [of "collect_role acc (snd rp)"] collect_role_subset [of acc "snd rp"]
    by auto
qed

lemma findByPk_reachable:
  assumes "User_findByPk d userId = Inr (Some (u, rs))"
  shows "(\<Union>rp \<in> set rs. set (snd rp)) = reachable d userId"
proof -
  from assms obtain f: "find (\<lambda>u. u_id u = userId) (users d) = Some u"
    and rs: "rs = map (\<lambda>r. (r, filter (\<lambda>p. (r_id r, p_id p) \<in> set (role_permissions d))
                                             (permissions d)))
                                (filter (\<lambda>r. (u_id u, r_id r) \<in> set (user_roles d))
                                        (roles d))"
    by (auto simp: User_findByPk_def split: option.splits)
  from find_SomeD [OF f] have "u_id u = userId" by simp
  then show ?thesis unfolding rs reachable_def by auto
qed

lemma getUserPermissions_hit:
  assumes "cache userId = Some e" and "now - ce_timestamp e < CACHE_TTL"
  shows "getUserPermissions cache d now userId = (ce_permissions e, cache, 0)"
  using assms by (simp add: getUserPermissions_def)

lemma getUserPermissions_miss_found:
  assumes "\<forall>e. cache userId = Some e \<longrightarrow> \<not> now - ce_timestamp e < CACHE_TTL"
      and "User_findByPk d userId = Inr (Some (u, rs))"
  shows "getUserPermissions cache d now userId
           = (collect_roles [] rs,
              cache(userId \<mapsto> \<lparr> ce_permissions = collect_roles [] rs, ce_timestamp = now \<rparr>), 1)"
  using assms by (auto simp: getUserPermissions_def Let_def split: option.splits)

lemma getUserPermissions_miss_failed:
  assumes "\<forall>e. cache userId = Some e \<longrightarrow> \<not> now - ce_timestamp e < CACHE_TTL"
      and "User_findByPk d userId = Inl ex \<or> User_findByPk d userId = Inr None"
  shows "getUserPermissions cache d now userId = ([], cache, 1)"
  using assms by (auto simp: getUserPermissions_def Let_def split: option.splits)

lemma findByPk_alice:
  "User_findByPk db0 ''u1''
     = Inr (Some (alice, [(\<lparr> r_id = ''r1'', r_name = ''moderator'' \<rparr>, [routes_read, routes_update])]))"
  by (simp add: User_findByPk_def db0_def alice_def root_def
        routes_read_def routes_update_def routes_delete_def)

lemma alice_permissions:
  "getUserPermissions Map.empty db0 0 ''u1''
     = ([routes_read, routes_update],
        [''u1'' \<mapsto> \<lparr> ce_permissions = [routes_read, routes_update], ce_timestamp = 0 \<rparr>], 1)"
  by (simp add: getUserPermissions_def findByPk_alice Let_def
        routes_read_def routes_update_def)

text \<open>
  C7, as the code has it. When the first call finds no fresh cache entry and its query
  returns the identity's row, it computes the list from the store, caches it, and a
  second call within the life time of that entry returns the same list from the cache
  without a query (whatever the store then holds); the computed list has no two entries
  of the same permission id, and its permissions are, id for id, those reachable through
  the roles assigned to the identity. When the first call is itself served from a fresh
  cache entry, so is a second call within the life time of that entry, with the same
  list.
\<close>

theorem getUserPermissions_twice:
  "(User_findByPk d userId = Inr (Some (u, rs))
      \<and> (\<forall>e. cache userId = Some e \<longrightarrow> \<not> now1 - ce_timestamp e < CACHE_TTL)
      \<and> now2 - now1 < CACHE_TTL
    \<longrightarrow> (\<exists>ps cache1. getUserPermissions cache d now1 userId = (ps, cache1, 1)
           \<and> getUserPermissions cache1 d2 now2 userId = (ps, cache1, 0)
           \<and> distinct (map p_id ps)
           \<and> p_id ` set ps = p_id ` reachable d userId
           \<and> set ps \<subseteq> reachable d userId))
   \<and> (cache userId = Some e \<and> now1 - ce_timestamp e < CACHE_TTL
        \<and> now2 - ce_timestamp e < CACHE_TTL
    \<longrightarrow> getUserPermissions cache d now1 userId = (ce_permissions e, cache, 0)
        \<and> getUserPermissions cache d2 now2 userId = (ce_permissions e, cache, 0))"
proof (intro conjI impI)
  assume a: "User_findByPk d userId = Inr (Some (u, rs))
      \<and> (\<forall>e. cache userId = Some e \<longrightarrow> \<not> now1 - ce_timestamp e < CACHE_TTL)
      \<and> now2 - now1 < CACHE_TTL"
  let ?ps = "collect_roles [] rs"
  let ?cache1 = "cache(userId \<mapsto> \<lparr> ce_permissions = ?ps, ce_timestamp = now1 \<rparr>)"
  have first: "getUserPermissions cache d now1 userId = (?ps, ?cache1, 1)"
    using a getUserPermissions_miss_found by blast
  have second: "getUserPermissions ?cache1 d2 now2 userId = (?ps, ?cache1, 0)"
    using a getUserPermissions_hit [of ?cache1 userId _ now2 d2] by simp
  have r: "(\<Union>rp \<in> set rs. set (snd rp)) = reachable d userId"
    using a findByPk_reachable by blast
  have "distinct (map p_id ?ps)"
    by (rule collect_roles_distinct) simp
  moreover have "p_id ` set ?ps = p_id ` reachable d userId"
    using collect_roles_ids [of "[]" rs] r by simp
  moreover have "set ?ps \<subseteq> reachable d userId"
    using collect_roles_subset [of "[]" rs] r by simp
  ultimately show "\<exists>ps cache1. getUserPermissions cache d now1 userId = (ps, cache1, 1)
           \<and> getUserPermissions cache1 d2 now2 userId = (ps, cache1, 0)
           \<and> distinct (map p_id ps)
           \<and> p_id ` set ps = p_id ` reachable d userId
           \<and> set ps \<subseteq> reachable d userId"
    using first second by blast
next
  assume "cache userId = Some e \<and> now1 - ce_timestamp e < CACHE_TTL
        \<and> now2 - ce_timestamp e < CACHE_TTL"
  then show "getUserPermissions cache d now1 userId = (ce_permissions e, cache, 0)"
    and "getUserPermissions cache d2 now2 userId = (ce_permissions e, cache, 0)"
    using getUserPermissions_hit by blast+
qed

theorem getUserPermissions_twice_witness:
  "getUserPermissions Map.empty db0 0 ''u1''
     = ([routes_read, routes_update],
        [''u1'' \<mapsto> \<lparr> ce_permissions = [routes_read, routes_update], ce_timestamp = 0 \<rparr>], 1)
   \<and> getUserPermissions
        [''u1'' \<mapsto> \<lparr> ce_permissions = [routes_read, routes_update], ce_timestamp = 0 \<rparr>]
        (db0\<lparr>outage := Some ''connection refused''\<rparr>) 299999 ''u1''
     = ([routes_read, routes_update],
        [''u1'' \<mapsto> \<lparr> ce_permissions = [routes_read, routes_update], ce_timestamp = 0 \<rparr>], 0)"
  using getUserPermissions_twice
          [where d = db0 and userId = "''u1''" and u = alice
             and rs = "[(\<lparr> r_id = ''r1'', r_name = ''moderator'' \<rparr>, [routes_read, routes_update])]"
             and cache = Map.empty and ?now1.0 = 0 and ?now2.0 = 299999
             and ?d2.0 = "db0\<lparr>outage := Some ''connection refused''\<rparr>"]
        findByPk_alice alice_permissions
  by (simp add: CACHE_TTL_def)

text \<open>A first call whose query throws returns the empty list and caches nothing; a
  second call a second later, on the same tables, queries the store and returns the two
  permissions of the moderator.\<close>

theorem getUserPermissions_failed_read_not_cached:
  "getUserPermissions Map.empty (db0\<lparr>outage := Some ''connection refused''\<rparr>) 0 ''u1''
     = ([], Map.empty, 1)
   \<and> getUserPermissions Map.empty db0 1000 ''u1''
     = ([routes_read, routes_update],
        [''u1'' \<mapsto> \<lparr> ce_permissions = [routes_read, routes_update], ce_timestamp = 1000 \<rparr>], 1)"
  by (simp add: getUserPermissions_def findByPk_alice Let_def
        routes_read_def routes_update_def)
     (simp add: User_findByPk_def)

section \<open>The permission gate\<close>

lemma js_some_matches: "js_some (matches r) ps = Inr True \<longleftrightarrow> present_in r ps"
  by (induction ps) (cases r; auto simp: matches_def)+

lemma js_every_True: "js_every f rq = Inr True \<longleftrightarrow> (\<forall>r \<in> set rq. f r = Inr True)"
  by (induction rq) (auto split: sum.splits)

lemma js_some_total: "r \<noteq> NullEntry \<Longrightarrow> \<exists>b. js_some (matches r) ps = Inr b"
  by (induction ps) (cases r; auto simp: matches_def)+

lemma js_every_total:
  "\<forall>r \<in> set rq. \<exists>b. f r = Inr b \<Longrightarrow> \<exists>b. js_every f rq = Inr b"
  by (induction rq) (auto split: sum.splits)

lemma js_every_cases:
  "js_every f rq = Inr True \<or> js_every f rq = Inr False \<or> (\<exists>e. js_every f rq = Inl e)"
  by (cases "js_every f rq") auto

lemma js_every_no_permissions:
  "js_every (\<lambda>req_entry. Inr False) rq = Inr (rq = [])"
  by (cases rq) simp_all

text \<open>
  C2. For an authenticated identity with resolved permission list \<open>ps\<close>, the permission
  gate calls \<open>next()\<close> exactly when the identity is an administrator or every entry of
  the requirement list is present in \<open>ps\<close>; an administrator always passes, the empty
  list always passes, and a list with an entry that is not present is answered 403
  (when no entry is \<open>null\<close>, whose comparison throws).
\<close>

theorem authorize_decides:
  assumes "req_user req = Some u"
      and "getUserPermissions cache d now (u_id u) = (ps, cache', n)"
  shows "(fst (authorize rq cache d req now) = Next ()
            \<longleftrightarrow> u_role u = ''admin'' \<or> (\<forall>r \<in> set rq. present_in r ps))
         \<and> (u_role u = ''admin'' \<longrightarrow> fst (authorize rq cache d req now) = Next ())
         \<and> fst (authorize [] cache d req now) = Next ()
         \<and> (u_role u \<noteq> ''admin'' \<and> \<not> (\<forall>r \<in> set rq. present_in r ps) \<and> NullEntry \<notin> set rq
              \<longrightarrow> fst (authorize rq cache d req now)
                    = Respond (Response 403 ''Insufficient permissions''))"
proof -
  let ?f = "\<lambda>req_entry. js_some (matches req_entry) ps"
  have every: "js_every ?f rq = Inr True \<longleftrightarrow> (\<forall>r \<in> set rq. present_in r ps)"
    by (simp add: js_every_True js_some_matches)
  have admin: "u_role u = ''admin'' \<Longrightarrow> fst (authorize rq cache d req now) = Next ()"
    using assms by (simp add: authorize_def)
  have other: "u_role u \<noteq> ''admin'' \<Longrightarrow>
      fst (authorize rq cache d req now) =
        (case js_every ?f rq of
           Inl e \<Rightarrow> Respond (Response 500 ''Authorization failed'')
         | Inr b \<Rightarrow> if b then Next () else Respond (Response 403 ''Insufficient permissions''))"
    using assms by (simp add: authorize_def split: sum.splits)
  have iff: "fst (authorize rq cache d req now) = Next ()
            \<longleftrightarrow> u_role u = ''admin'' \<or> (\<forall>r \<in> set rq. present_in r ps)"
  proof (cases "u_role u = ''admin''")
    case True
    then show ?thesis using admin by simp
  next
    case False
    then show ?thesis
      using other every js_every_cases [of ?f rq] by auto
  qed
  have empty: "fst (authorize [] cache d req now) = Next ()"
    using assms by (simp add: authorize_def)
  have denied: "fst (authorize rq cache d req now)
                  = Respond (Response 403 ''Insufficient permissions'')"
    if "u_role u \<noteq> ''admin''" "\<not> (\<forall>r \<in> set rq. present_in r ps)" "NullEntry \<notin> set rq"
  proof -
    have "\<forall>r \<in> set rq. \<exists>b. ?f r = Inr b"
      using that(3) js_some_total by metis
    then obtain b where b: "js_every ?f rq = Inr b"
      using js_every_total [of rq ?f] by blast
    with every that(2) have "\<not> b" by auto
    with b other that(1) show ?thesis by simp
  qed
  show ?thesis using iff admin empty denied by blast
qed

theorem authorize_decides_witness:
  "fst (authorize [ByName ''routes.update''] Map.empty db0 (req0\<lparr>req_user := Some alice\<rparr>) 0)
     = Next ()
   \<and> fst (authorize [ByName ''routes.delete''] Map.empty db0 (req0\<lparr>req_user := Some alice\<rparr>) 0)
     = Respond (Response 403 ''Insufficient permissions'')
   \<and> fst (authorize [ByName ''routes.read'', ByResourceAction ''routes'' ''delete'']
            Map.empty db0 (req0\<lparr>req_user := Some alice\<rparr>) 0)
     = Respond (Response 403 ''Insufficient permissions'')"
proof -
  have u: "req_user (req0\<lparr>req_user := Some alice\<rparr>) = Some alice" by simp
  have r: "u_role alice \<noteq> ''admin''" by (simp add: alice_def)
  have p: "getUserPermissions Map.empty db0 0 (u_id alice)
     = ([routes_read, routes_update],
        [''u1'' \<mapsto> \<lparr> ce_permissions = [routes_read, routes_update], ce_timestamp = 0 \<rparr>], 1)"
    using alice_permissions by (simp add: alice_def)
  note t = authorize_decides [OF u p]
  have "fst (authorize [ByName ''routes.update''] Map.empty db0 (req0\<lparr>req_user := Some alice\<rparr>) 0)
     = Next ()"
    using t [of "[ByName ''routes.update'']"] by (simp add: routes_read_def routes_update_def)
  moreover have "fst (authorize [ByName ''routes.delete''] Map.empty db0 (req0\<lparr>req_user := Some alice\<rparr>) 0)
     = Respond (Response 403 ''Insufficient permissions'')"
    using t [of "[ByName ''routes.delete'']"] r by (simp add: routes_read_def routes_update_def)
  moreover have "fst (authorize [ByName ''routes.read'', ByResourceAction ''routes'' ''delete'']
            Map.empty db0 (req0\<lparr>req_user := Some alice\<rparr>) 0)
     = Respond (Response 403 ''Insufficient permissions'')"
    using t [of "[ByName ''routes.read'', ByResourceAction ''routes'' ''delete'']"] r
    by (simp add: routes_read_def routes_update_def)
  ultimately show ?thesis by simp
qed

text \<open>
  C4, as the code has it. When the store throws while the permissions of a
  non-administrator are resolved (no fresh cache entry), \<open>getUserPermissions\<close> returns
  the empty list and leaves the cache as it is, and \<open>authorize\<close> decides on that empty
  list: a non-empty requirement list is answered 403 \<open>Insufficient permissions\<close>, the
  empty requirement list passes; no 500 is sent.
\<close>

theorem storage_failure_resolves_to_no_permissions:
  assumes "outage d = Some msg"
      and "req_user req = Some u"
      and "u_role u \<noteq> ''admin''"
      and "\<forall>e. cache (u_id u) = Some e \<longrightarrow> \<not> now - ce_timestamp e < CACHE_TTL"
  shows "getUserPermissions cache d now (u_id u) = ([], cache, 1)
         \<and> authorize rq cache d req now
             = (if rq = [] then Next ()
                else Respond (Response 403 ''Insufficient permissions''), cache)"
proof -
  have "User_findByPk d (u_id u) = Inl (SequelizeError msg)"
    using assms(1) by (simp add: User_findByPk_def)
  then have g: "getUserPermissions cache d now (u_id u) = ([], cache, 1)"
    using getUserPermissions_miss_failed [of cache "u_id u" now d] assms(4) by blast
  show ?thesis
    using g assms(2,3) by (simp add: authorize_def js_every_no_permissions)
qed

theorem storage_failure_resolves_to_no_permissions_witness:
  "authorize [ByName ''routes.read''] Map.empty (db0\<lparr>outage := Some ''connection refused''\<rparr>)
       (req0\<lparr>req_user := Some alice\<rparr>) 0
     = (Respond (Response 403 ''Insufficient permissions''), Map.empty)
   \<and> authorize [] Map.empty (db0\<lparr>outage := Some ''connection refused''\<rparr>)
       (req0\<lparr>req_user := Some alice\<rparr>) 0
     = (Next (), Map.empty)"
proof -
  have o: "outage (db0\<lparr>outage := Some ''connection refused''\<rparr>) = Some ''connection refused''"
    by simp
  have u: "req_user (req0\<lparr>req_user := Some alice\<rparr>) = Some alice" by simp
  have r: "u_role alice \<noteq> ''admin''" by (simp add: alice_def)
  have m: "\<forall>e. Map.empty (u_id alice) = Some e \<longrightarrow> \<not> 0 - ce_timestamp e < CACHE_TTL"
    by simp
  note t = storage_failure_resolves_to_no_permissions [OF o u r m]
  show ?thesis
    using t [of "[ByName ''routes.read'']"] t [of "[]"] by simp
qed

text \<open>With the store down, the moderator is answered 403 for a permission that the
  same request is granted when the store answers.\<close>

theorem storage_failure_answered_403:
  "fst (authorize [ByName ''routes.read''] Map.empty
          (db0\<lparr>outage := Some ''connection refused''\<rparr>) (req0\<lparr>req_user := Some alice\<rparr>) 0)
     = Respond (Response 403 ''Insufficient permissions'')
   \<and> fst (authorize [ByName ''routes.read''] Map.empty db0 (req0\<lparr>req_user := Some alice\<rparr>) 0)
     = Next ()"
proof -
  have g: "getUserPermissions Map.empty (db0\<lparr>outage := Some ''connection refused''\<rparr>) 0 ''u1''
             = ([], Map.empty, 1)"
    by (simp add: getUserPermissions_def User_findByPk_def)
  have 1: "fst (authorize [ByName ''routes.read''] Map.empty
          (db0\<lparr>outage := Some ''connection refused''\<rparr>) (req0\<lparr>req_user := Some alice\<rparr>) 0)
     = Respond (Response 403 ''Insufficient permissions'')"
    using g by (simp add: authorize_def alice_def)
  have 2: "fst (authorize [ByName ''routes.read''] Map.empty db0 (req0\<lparr>req_user := Some alice\<rparr>) 0)
     = Next ()"
    using alice_permissions
    by (simp add: authorize_def alice_def matches_def routes_read_def)
  show ?thesis using 1 2 by simp
qed

section \<open>Login and session lookup\<close>

lemma tok0_eq:
  "tok0 = Jwt \<lparr> c_userId = ''u1'', c_email = ''alice@example.org'', c_role = ''moderator'',
                 c_iat = 1, c_exp = 86401, c_iss = ''openblind-api'',
                 c_aud = ''openblind-app'' \<rparr> ''s3cret''"
  by (simp add: tok0_def generateToken_def expiresIn_def cfg0_def alice_def)

lemma login_alice:
  "login cfg0 db0 ''alice@example.org'' ''pw'' req0 1500 1 ''s1''
     = (LoginOk alice tok0 86401500,
        db0\<lparr>users := [root, alice\<lparr>u_lastLogin := Some 1500\<rparr>],
            sessions := [\<lparr> s_id = ''s1'', s_userId = ''u1'', s_tokenHash = Bcrypt 10 1 tok0,
                          s_ipAddress = ''10.0.0.1'', s_userAgent = ''curl'',
                          s_expiresAt = 86401500, s_createdAt = 1500 \<rparr>]\<rparr>)"
  by (simp add: login_def createUserSession_def User_update_def bcrypt_compare_def
        bcrypt_hash_def Let_def tok0_def db0_def req0_def alice_def root_def)

lemma db1_eq:
  "db1 = db0\<lparr>users := [root, alice\<lparr>u_lastLogin := Some 1500\<rparr>],
            sessions := [\<lparr> s_id = ''s1'', s_userId = ''u1'', s_tokenHash = Bcrypt 10 1 tok0,
                          s_ipAddress = ''10.0.0.1'', s_userAgent = ''curl'',
                          s_expiresAt = 86401500, s_createdAt = 1500 \<rparr>]\<rparr>"
  by (simp add: db1_def login_alice)

lemma verify_tok0: "jwt_verify tok0 (JWT_SECRET cfg0) 2500 = Inr
   \<lparr> c_userId = ''u1'', c_email = ''alice@example.org'', c_role = ''moderator'',
                 c_iat = 1, c_exp = 86401, c_iss = ''openblind-api'',
                 c_aud = ''openblind-app'' \<rparr>"
  by (simp add: tok0_eq jwt_verify_def cfg0_def)

lemma findOne_SomeD:
  assumes "UserSession_findOne d h now userId = Inr (Some (s, u))"
  shows "s \<in> set (sessions d) \<and> u \<in> set (users d) \<and> s_userId s = u_id u
         \<and> s_tokenHash s = h \<and> s_expiresAt s > now \<and> u_id u = userId \<and> u_isActive u"
proof -
  from assms obtain P xs where f: "find P xs = Some (s, u)"
    and P: "P = (\<lambda>(s, u). s_tokenHash s = h \<and> s_expiresAt s > now
                                \<and> u_id u = userId \<and> u_isActive u)"
    and xs: "xs = [(s, u). s \<leftarrow> sessions d, u \<leftarrow> users d, s_userId s = u_id u]"
    by (auto simp: UserSession_findOne_def split: option.splits)
  from find_SomeD [OF f] have "P (s, u)" and "(s, u) \<in> set xs" by simp_all
  then show ?thesis unfolding P xs by auto
qed

lemma findOne_None:
  assumes "outage d = None"
      and "\<And>s u. s \<in> set (sessions d) \<Longrightarrow> u \<in> set (users d) \<Longrightarrow> s_userId s = u_id u \<Longrightarrow>
             \<not> (s_tokenHash s = h \<and> s_expiresAt s > now \<and> u_id u = userId \<and> u_isActive u)"
  shows "UserSession_findOne d h now userId = Inr None"
  using assms by (auto simp: UserSession_findOne_def find_None_iff)

lemma jwt_verify_Inl:
  "jwt_verify token secret now = Inl e \<Longrightarrow> e = JsonWebTokenError \<or> e = TokenExpiredError"
  by (auto simp: jwt_verify_def split: raw_token.splits if_splits)

lemma verify_Inr_not_falsy: "jwt_verify token secret now = Inr decoded \<Longrightarrow> \<not> falsy (Some token)"
  by (cases token) (auto simp: jwt_verify_def falsy_def)

lemma authenticate_bad_token:
  assumes "bearer req = Some token"
      and "jwt_verify token (JWT_SECRET cfg) now = Inl e"
  shows "\<exists>r. authenticate cfg d req now fresh_salt = (Respond r, d) \<and> status r = 401"
  using assms jwt_verify_Inl [OF assms(2)]
  by (auto simp: authenticate_def auth_catch_def)

lemma authenticate_no_row:
  assumes "bearer req = Some token"
      and "jwt_verify token (JWT_SECRET cfg) now = Inr decoded"
      and "UserSession_findOne d (bcrypt_hash fresh_salt token 10) now (c_userId decoded) = Inr None"
  shows "authenticate cfg d req now fresh_salt
           = (Respond (Response 401 ''Invalid or expired token''), d)"
  using assms verify_Inr_not_falsy [OF assms(2)]
  by (simp add: authenticate_def)

lemma authenticate_Next_row:
  assumes "fst (authenticate cfg d req now fresh_salt) = Next (u, s)"
  shows "s \<in> set (sessions d) \<and> u \<in> set (users d) \<and> s_userId s = u_id u
         \<and> s_expiresAt s > now \<and> u_isActive u
         \<and> (\<exists>token. bearer req = Some token \<and> s_tokenHash s = bcrypt_hash fresh_salt token 10)"
  using assms
  by (auto simp: authenticate_def split: option.splits sum.splits if_splits
        dest!: findOne_SomeD)

text \<open>
  C1. A login followed by \<open>authenticate\<close> with the returned token, one second later and
  with the identity still active: login stores the digest of the token under the salt it
  drew (here 1), \<open>authenticate\<close> hashes the token again under a new salt (here 2), no
  stored digest equals the new one, and the request is answered 401 instead of being
  given the identity that login returned.
\<close>

theorem login_then_authenticate_rejected:
  "login cfg0 db0 ''alice@example.org'' ''pw'' req0 1500 1 ''s1''
     = (LoginOk alice tok0 86401500, db1)
   \<and> sessions db1
     = [\<lparr> s_id = ''s1'', s_userId = u_id alice, s_tokenHash = bcrypt_hash 1 tok0 10,
           s_ipAddress = ''10.0.0.1'', s_userAgent = ''curl'',
           s_expiresAt = 86401500, s_createdAt = 1500 \<rparr>]
   \<and> authenticate cfg0 db1 (req0\<lparr>bearer := Some tok0\<rparr>) 2500 2
     = (Respond (Response 401 ''Invalid or expired token''), db1)"
proof -
  have "authenticate cfg0 db1 (req0\<lparr>bearer := Some tok0\<rparr>) 2500 2
     = (Respond (Response 401 ''Invalid or expired token''), db1)"
    unfolding authenticate_def
    by (simp add: verify_tok0)
       (simp add: tok0_eq falsy_def UserSession_findOne_def bcrypt_hash_def db1_eq db0_def
          alice_def root_def)
  moreover have "sessions db1
     = [\<lparr> s_id = ''s1'', s_userId = u_id alice, s_tokenHash = bcrypt_hash 1 tok0 10,
           s_ipAddress = ''10.0.0.1'', s_userAgent = ''curl'',
           s_expiresAt = 86401500, s_createdAt = 1500 \<rparr>]"
    by (simp add: db1_eq db0_def bcrypt_hash_def alice_def)
  moreover have "login cfg0 db0 ''alice@example.org'' ''pw'' req0 1500 1 ''s1''
     = (LoginOk alice tok0 86401500, db1)"
    by (simp add: login_alice db1_eq)
  ultimately show ?thesis by simp
qed

text \<open>In general \<open>authenticate\<close> can only succeed when the salt it draws is the salt of
  a stored digest, so after a login it fails for every other salt; were the salt of the
  stored digest used again, the same request would be given the identity.\<close>

lemma authenticate_needs_stored_salt:
  assumes "\<forall>s \<in> set (sessions d). salt (s_tokenHash s) \<noteq> fresh_salt"
  shows "fst (authenticate cfg d req now fresh_salt) \<noteq> Next x"
proof
  assume n: "fst (authenticate cfg d req now fresh_salt) = Next x"
  obtain u s where x: "x = (u, s)" by (cases x)
  from authenticate_Next_row [OF n [unfolded x]]
  have "s \<in> set (sessions d)" and "salt (s_tokenHash s) = fresh_salt"
    by (auto simp: bcrypt_hash_def)
  with assms show False by blast
qed

lemma login_then_authenticate_other_salt:
  assumes "login cfg d email password req now salt1 new_id = (LoginOk u token expiresAt, d')"
      and "\<forall>s \<in> set (sessions d). salt (s_tokenHash s) \<noteq> salt2"
      and "salt2 \<noteq> salt1"
  shows "fst (authenticate cfg d' req' now' salt2) \<noteq> Next x"
proof -
  from assms(1) have "set (sessions d') \<subseteq> set (sessions d) \<union> {s. salt (s_tokenHash s) = salt1}"
    by (auto simp: login_def createUserSession_def User_update_def Let_def bcrypt_hash_def
          split: option.splits if_splits sum.splits)
  with assms(2,3) have "\<forall>s \<in> set (sessions d'). salt (s_tokenHash s) \<noteq> salt2" by auto
  then show ?thesis by (rule authenticate_needs_stored_salt)
qed

lemma authenticate_same_salt:
  "fst (authenticate cfg0 db1 (req0\<lparr>bearer := Some tok0\<rparr>) 2500 1)
     = Next (alice\<lparr>u_lastLogin := Some 1500\<rparr>,
             \<lparr> s_id = ''s1'', s_userId = ''u1'', s_tokenHash = Bcrypt 10 1 tok0,
                          s_ipAddress = ''10.0.0.1'', s_userAgent = ''curl'',
                          s_expiresAt = 86401500, s_createdAt = 1500 \<rparr>)"
  unfolding authenticate_def
  by (simp add: verify_tok0)
     (simp add: tok0_eq falsy_def UserSession_findOne_def bcrypt_hash_def db1_eq db0_def
        alice_def root_def User_update_def)

section \<open>Logout and deactivation\<close>


lemma deactivate_alice:
  "toggleUserStatus db1 (req0\<lparr>req_user := Some root\<rparr>) ''u1'' = (Inr False, db_deactivated)"
  by (simp add: toggleUserStatus_def User_update_def db1_eq db_deactivated_def db0_def
        alice_def root_def Let_def)

lemma toggle_to_inactive:
  assumes "toggleUserStatus d admin_req target = (Inr False, d')"
  shows "outage d' = None \<and> sessions d' = sessions d
         \<and> (\<forall>u \<in> set (users d'). u_id u = target \<longrightarrow> \<not> u_isActive u)"
proof -
  from assms obtain u where up: "outage d = None"
    and f: "find (\<lambda>u. u_id u = target) (users d) = Some u"
    and d': "User_update d (\<lambda>v. v\<lparr>u_isActive := False\<rparr>) (u_id u) = Inr d'"
    by (auto simp: toggleUserStatus_def Let_def split: option.splits if_splits sum.splits)
  from find_SomeD [OF f] have "u_id u = target" by simp
  with up d' show ?thesis by (auto simp: User_update_def)
qed

lemma login_alice_again:
  "login cfg0 db1 ''alice@example.org'' ''pw'' req0 1700 3 ''s2''
     = (LoginOk (alice\<lparr>u_lastLogin := Some 1500\<rparr>) tok0 86401700,
        db0\<lparr>users := [root, alice\<lparr>u_lastLogin := Some 1700\<rparr>],
            sessions := [\<lparr> s_id = ''s1'', s_userId = ''u1'', s_tokenHash = Bcrypt 10 1 tok0,
                          s_ipAddress = ''10.0.0.1'', s_userAgent = ''curl'',
                          s_expiresAt = 86401500, s_createdAt = 1500 \<rparr>,
                         \<lparr> s_id = ''s2'', s_userId = ''u1'', s_tokenHash = Bcrypt 10 3 tok0,
                          s_ipAddress = ''10.0.0.1'', s_userAgent = ''curl'',
                          s_expiresAt = 86401700, s_createdAt = 1700 \<rparr>]\<rparr>)"
  by (simp add: db1_eq)
     (simp add: login_def createUserSession_def User_update_def bcrypt_compare_def
        bcrypt_hash_def Let_def tok0_eq generateToken_def expiresIn_def cfg0_def
        db0_def req0_def alice_def root_def)

lemma db2_eq:
  "db2 = db0\<lparr>users := [root, alice\<lparr>u_lastLogin := Some 1700\<rparr>],
            sessions := [\<lparr> s_id = ''s1'', s_userId = ''u1'', s_tokenHash = Bcrypt 10 1 tok0,
                          s_ipAddress = ''10.0.0.1'', s_userAgent = ''curl'',
                          s_expiresAt = 86401500, s_createdAt = 1500 \<rparr>,
                         \<lparr> s_id = ''s2'', s_userId = ''u1'', s_tokenHash = Bcrypt 10 3 tok0,
                          s_ipAddress = ''10.0.0.1'', s_userAgent = ''curl'',
                          s_expiresAt = 86401700, s_createdAt = 1700 \<rparr>]\<rparr>"
  by (simp add: db2_def login_alice_again)












lemma authenticate_answers:
  "(\<exists>x d'. authenticate cfg d req now fresh_salt = (Next x, d'))
   \<or> (\<exists>r. authenticate cfg d req now fresh_salt = (Respond r, d))"
  by (auto simp: authenticate_def split: option.splits sum.splits if_splits)



text \<open>Before the logout the same request, drawing the salt of the session \<open>s1\<close>, is
  given the identity through that session.\<close>

lemma authenticate_before_logout:
  "fst (authenticate cfg0 db2 (req0\<lparr>bearer := Some tok0\<rparr>) 2500 1)
     = Next (alice\<lparr>u_lastLogin := Some 1700\<rparr>,
             \<lparr> s_id = ''s1'', s_userId = ''u1'', s_tokenHash = Bcrypt 10 1 tok0,
                s_ipAddress = ''10.0.0.1'', s_userAgent = ''curl'',
                s_expiresAt = 86401500, s_createdAt = 1500 \<rparr>)"
  unfolding authenticate_def
  by (simp add: verify_tok0)
     (simp add: tok0_eq falsy_def UserSession_findOne_def bcrypt_hash_def db2_eq
        db0_def alice_def root_def User_update_def)


text \<open>
  C6, as the code has it. After \<open>toggleUserStatus\<close> has deactivated an identity, every
  \<open>authenticate\<close> call that presents a token issued to that identity fails with status
  401 and leaves the store as it is, whether or not its sessions are still unexpired;
  when the token itself still verifies, the answer is the 401
  \<open>Invalid or expired token\<close>, the one answer the code has for a missing session, an
  expired session and an inactive identity alike.
\<close>

theorem deactivated_identity_rejected:
  assumes "toggleUserStatus d admin_req target = (Inr False, d')"
      and "bearer req = Some (Jwt payload key)"
      and "c_userId payload = target"
  shows "\<exists>r. authenticate cfg d' req now fresh_salt = (Respond r, d') \<and> status r = 401
           \<and> (\<forall>decoded. jwt_verify (Jwt payload key) (JWT_SECRET cfg) now = Inr decoded
                 \<longrightarrow> r = Response 401 ''Invalid or expired token'')"
proof -
  note t = toggle_to_inactive [OF assms(1)]
  show ?thesis
  proof (cases "jwt_verify (Jwt payload key) (JWT_SECRET cfg) now")
    case (Inr decoded)
    then have "c_userId decoded = target"
      using assms(3) by (auto simp: jwt_verify_def split: if_splits)
    then have "UserSession_findOne d' (bcrypt_hash fresh_salt (Jwt payload key) 10) now
                 (c_userId decoded) = Inr None"
      using t by (intro findOne_None) auto
    then show ?thesis
      using authenticate_no_row [OF assms(2) Inr] Inr by simp
  next
    case (Inl e)
    then show ?thesis
      using authenticate_bad_token [OF assms(2) Inl] by simp
  qed
qed

theorem deactivated_identity_rejected_witness:
  "toggleUserStatus db1 (req0\<lparr>req_user := Some root\<rparr>) ''u1'' = (Inr False, db_deactivated)
   \<and> sessions db_deactivated = sessions db1
   \<and> authenticate cfg0 db_deactivated (req0\<lparr>bearer := Some tok0\<rparr>) 2500 1
       = (Respond (Response 401 ''Invalid or expired token''), db_deactivated)"
proof -
  have b: "bearer (req0\<lparr>bearer := Some tok0\<rparr>)
             = Some (Jwt \<lparr> c_userId = ''u1'', c_email = ''alice@example.org'',
                 c_role = ''moderator'', c_iat = 1, c_exp = 86401,
                 c_iss = ''openblind-api'', c_aud = ''openblind-app'' \<rparr> ''s3cret'')"
    by (simp add: tok0_eq)
  from deactivated_identity_rejected [OF deactivate_alice b, of cfg0 2500 1]
  show ?thesis
    using verify_tok0 deactivate_alice by (auto simp: tok0_eq db_deactivated_def)
qed

text \<open>The answer for a deactivated identity is the very answer given when no session
  was ever stored for the token: it does not single out an inactive identity.\<close>

theorem deactivated_identity_generic_response:
  "toggleUserStatus db1 (req0\<lparr>req_user := Some root\<rparr>) ''u1'' = (Inr False, db_deactivated)
   \<and> fst (authenticate cfg0 db_deactivated (req0\<lparr>bearer := Some tok0\<rparr>) 2500 1)
       = Respond (Response 401 ''Invalid or expired token'')
   \<and> sessions db0 = []
   \<and> fst (authenticate cfg0 db0 (req0\<lparr>bearer := Some tok0\<rparr>) 2500 1)
       = Respond (Response 401 ''Invalid or expired token'')"
proof -
  have b: "bearer (req0\<lparr>bearer := Some tok0\<rparr>) = Some tok0" by simp
  have "UserSession_findOne db_deactivated (bcrypt_hash 1 tok0 10) 2500 ''u1'' = Inr None"
    by (simp add: UserSession_findOne_def db_deactivated_def db1_eq db0_def alice_def root_def)
  from authenticate_no_row [OF b verify_tok0, of db_deactivated 1] this
  have 1: "fst (authenticate cfg0 db_deactivated (req0\<lparr>bearer := Some tok0\<rparr>) 2500 1)
       = Respond (Response 401 ''Invalid or expired token'')" by simp
  have "UserSession_findOne db0 (bcrypt_hash 1 tok0 10) 2500 ''u1'' = Inr None"
    by (simp add: UserSession_findOne_def db0_def)
  from authenticate_no_row [OF b verify_tok0, of db0 1] this
  have 2: "fst (authenticate cfg0 db0 (req0\<lparr>bearer := Some tok0\<rparr>) 2500 1)
       = Respond (Response 401 ''Invalid or expired token'')" by simp
  show ?thesis using 1 2 deactivate_alice by (simp add: db0_def)
qed

section \<open>Optional authentication\<close>

text \<open>
  C10. \<open>optionalAuth\<close> calls \<open>next()\<close> on every input and never answers the request
  itself. It attaches an identity and a session only when the store holds a session row
  for the digest that expires later than now and belongs to an active user whose id is
  the one in the verified token; without a token, with a token that fails verification,
  or with a store that throws, it proceeds with nothing attached.
\<close>

theorem optionalAuth_never_rejects:
  "(\<exists>a. optionalAuth cfg d req now fresh_salt = Next a)
   \<and> (\<forall>u s. optionalAuth cfg d req now fresh_salt = Next (Some (u, s)) \<longrightarrow>
         s \<in> set (sessions d) \<and> u \<in> set (users d) \<and> s_userId s = u_id u
         \<and> s_expiresAt s > now \<and> u_isActive u
         \<and> (\<exists>token decoded. bearer req = Some token
               \<and> jwt_verify token (JWT_SECRET cfg) now = Inr decoded
               \<and> u_id u = c_userId decoded
               \<and> s_tokenHash s = bcrypt_hash fresh_salt token 10))
   \<and> (bearer req = None \<longrightarrow> optionalAuth cfg d req now fresh_salt = Next None)
   \<and> (\<forall>token e. bearer req = Some token \<and> jwt_verify token (JWT_SECRET cfg) now = Inl e
         \<longrightarrow> optionalAuth cfg d req now fresh_salt = Next None)
   \<and> (outage d \<noteq> None \<longrightarrow> optionalAuth cfg d req now fresh_salt = Next None)"
proof -
  have total: "\<exists>a. optionalAuth cfg d req now fresh_salt = Next a"
    by (simp add: optionalAuth_def split: option.splits sum.splits prod.splits)
  have only: "s \<in> set (sessions d) \<and> u \<in> set (users d) \<and> s_userId s = u_id u
         \<and> s_expiresAt s > now \<and> u_isActive u
         \<and> (\<exists>token decoded. bearer req = Some token
               \<and> jwt_verify token (JWT_SECRET cfg) now = Inr decoded
               \<and> u_id u = c_userId decoded
               \<and> s_tokenHash s = bcrypt_hash fresh_salt token 10)"
    if "optionalAuth cfg d req now fresh_salt = Next (Some (u, s))" for u s
    using that
    by (auto simp: optionalAuth_def split: option.splits sum.splits if_splits
          dest!: findOne_SomeD)
  have absent: "bearer req = None \<Longrightarrow> optionalAuth cfg d req now fresh_salt = Next None"
    by (simp add: optionalAuth_def)
  have bad: "optionalAuth cfg d req now fresh_salt = Next None"
    if "bearer req = Some token" "jwt_verify token (JWT_SECRET cfg) now = Inl e" for token e
    using that by (simp add: optionalAuth_def)
  have down: "outage d \<noteq> None \<Longrightarrow> optionalAuth cfg d req now fresh_salt = Next None"
    by (auto simp: optionalAuth_def UserSession_findOne_def split: option.splits sum.splits)
  show ?thesis using total only absent bad down by blast
qed

theorem optionalAuth_never_rejects_witness:
  "(\<exists>a. optionalAuth cfg0 db1 (req0\<lparr>bearer := Some tok0\<rparr>) 2500 1 = Next a)
   \<and> optionalAuth cfg0 db1 req0 2500 1 = Next None
   \<and> optionalAuth cfg0 (db1\<lparr>outage := Some ''connection refused''\<rparr>)
        (req0\<lparr>bearer := Some tok0\<rparr>) 2500 1 = Next None
   \<and> optionalAuth cfg0 db1 (req0\<lparr>bearer := Some tok0\<rparr>) 86401000 1 = Next None"
proof -
  have "jwt_verify tok0 (JWT_SECRET cfg0) 86401000 = Inl TokenExpiredError"
    by (simp add: tok0_eq jwt_verify_def cfg0_def)
  then show ?thesis
  using optionalAuth_never_rejects [of cfg0 db1 "req0\<lparr>bearer := Some tok0\<rparr>" 2500 1]
        optionalAuth_never_rejects [of cfg0 db1 req0 2500 1]
        optionalAuth_never_rejects [of cfg0 "db1\<lparr>outage := Some ''connection refused''\<rparr>"
           "req0\<lparr>bearer := Some tok0\<rparr>" 2500 1]
        optionalAuth_never_rejects [of cfg0 db1 "req0\<lparr>bearer := Some tok0\<rparr>" 86401000 1]
  by (simp add: req0_def)
qed

lemma optionalAuth_same_salt:
  "optionalAuth cfg0 db1 (req0\<lparr>bearer := Some tok0\<rparr>) 2500 1
     = Next (Some (alice\<lparr>u_lastLogin := Some 1500\<rparr>,
             \<lparr> s_id = ''s1'', s_userId = ''u1'', s_tokenHash = Bcrypt 10 1 tok0,
                          s_ipAddress = ''10.0.0.1'', s_userAgent = ''curl'',
                          s_expiresAt = 86401500, s_createdAt = 1500 \<rparr>))"
  unfolding optionalAuth_def
  by (simp add: verify_tok0)
     (simp add: tok0_eq falsy_def UserSession_findOne_def bcrypt_hash_def db1_eq db0_def
        alice_def root_def)

section \<open>The sweep of expired sessions\<close>

text \<open>
  C3. Sweeping at the instant 1000 a table whose sessions expire at 999, at 1000 and at
  1001: \<open>cleanExpiredSessions\<close> removes one row and reports 1; the row whose expiry
  equals the instant of the sweep stays in the table.
\<close>

theorem cleanExpiredSessions_keeps_boundary_row:
  "cleanExpiredSessions db_sweep 1000
     = Inr (1, db_sweep\<lparr>sessions := [sess ''b'' 1000, sess ''c'' 1001]\<rparr>)
   \<and> s_expiresAt (sess ''b'' 1000) \<le> 1000"
  by (simp add: cleanExpiredSessions_def UserSession_destroy_def db_sweep_def db0_def sess_def)

text \<open>What the sweep does in general: it removes the rows that expire strictly before
  now and counts them. The session lookup, for its part, already refuses a row whose
  expiry equals now.\<close>

lemma cleanExpiredSessions_eq:
  "outage d = None \<Longrightarrow>
   cleanExpiredSessions d now
     = Inr (length (filter (\<lambda>s. s_expiresAt s < now) (sessions d)),
            d\<lparr>sessions := filter (\<lambda>s. now \<le> s_expiresAt s) (sessions d)\<rparr>)"
  by (simp add: cleanExpiredSessions_def UserSession_destroy_def not_less)

lemma expired_at_now_not_valid:
  "s_expiresAt s \<le> now \<Longrightarrow> UserSession_findOne d h now userId \<noteq> Inr (Some (s, u))"
  using findOne_SomeD [of d h now userId s u] by auto

end
